theory Spec2Isabelle
  imports Main
begin

section \<open>The multi-database connection pool of the postgres check\<close>

text \<open>
  A shallow embedding of \<^verbatim>\<open>postgres/datadog_checks/postgres/connections.py\<close>:
  the classes \<^verbatim>\<open>MultiDatabaseConnectionPool\<close> and
  \<^verbatim>\<open>MultiDatabaseConnectionPoolLimited\<close>. Every method is a function from the
  state of the pool to an outcome and the state it leaves behind; an exception is the
  outcome \<open>Inl e\<close>, and the state travels with it, because what a method changed before
  it raised stays changed. The methods are modelled as one thread runs them: the lock
  \<^verbatim>\<open>_mu\<close> is taken and released by \<^verbatim>\<open>with\<close> and never nested, so it has
  no sequential effect.
\<close>

subsection \<open>Exceptions and Python values\<close>

datatype error =
    ValueError
  | KeyError
  | AttributeError
  | OverflowError
  | ConnectError string
  | DriverError

text \<open>The values a field of the named tuple can hold: \<^verbatim>\<open>None\<close>, a connection
  object (by identity) or a \<^verbatim>\<open>datetime\<close>.\<close>

datatype pyval = PyNone | PyConn nat | PyDatetime int

subsection \<open>The connection objects\<close>

text \<open>
  The pool reads \<^verbatim>\<open>closed\<close> and \<^verbatim>\<open>status\<close> of a connection and calls
  \<^verbatim>\<open>rollback()\<close> and \<^verbatim>\<open>close()\<close> on it. The objects belong to the driver, not
  to this repository, so each one carries how it answers: whether \<^verbatim>\<open>close()\<close> and
  \<^verbatim>\<open>rollback()\<close> raise. \<open>close_calls\<close> counts the calls of \<^verbatim>\<open>close()\<close>; it is
  a ghost field, read by no method.
\<close>

record connection_obj =
  closed :: bool
  status :: int
  close_raises :: bool
  rollback_raises :: bool
  close_calls :: nat

type_synonym heap = "nat \<Rightarrow> connection_obj"

text \<open>\<^verbatim>\<open>psycopg2.extensions.STATUS_READY\<close>.\<close>

definition STATUS_READY :: int where
  "STATUS_READY = 1"

subsection \<open>The named tuple and the state of the pool\<close>

text \<open>
  \<^verbatim>\<open>namedtuple("ConnectionWithTTLAndLastAccess", "connection deadline last_access")\<close>.
  Times are microseconds since \<^verbatim>\<open>datetime.min\<close>. A stored tuple always holds a
  connection object and two datetimes (line 68 is the only store); the tuple of three
  \<^verbatim>\<open>None\<close> exists only as the default of \<^verbatim>\<open>pop\<close>, which is the \<open>None\<close> of
  \<open>dict_pop\<close> below.
\<close>

record ConnectionWithTTLAndLastAccess =
  connection :: nat
  deadline :: int
  last_access :: int

text \<open>Iterating over the tuple, as unpacking does: one value for each field.\<close>

definition tuple_items :: "ConnectionWithTTLAndLastAccess option \<Rightarrow> pyval list" where
  "tuple_items t =
     (case t of
        None \<Rightarrow> [PyNone, PyNone, PyNone]
      | Some c \<Rightarrow> [PyConn (connection c), PyDatetime (deadline c), PyDatetime (last_access c)])"

text \<open>\<^verbatim>\<open>a, b = t\<close>: any number of values other than two raises \<^verbatim>\<open>ValueError\<close>.\<close>

definition unpack2 :: "pyval list \<Rightarrow> error + (pyval \<times> pyval)" where
  "unpack2 vs = (case vs of [a, b] \<Rightarrow> Inr (a, b) | _ \<Rightarrow> Inl ValueError)"

record Stats =
  connection_opened :: int
  connection_pruned :: int
  connection_closed :: int
  connection_closed_failed :: int

text \<open>
  The injected \<^verbatim>\<open>connect_fn\<close>: the names of the parameters that
  \<^verbatim>\<open>inspect.signature\<close> reports, and what a call does. A call may create or change
  connection objects, and returns one of them or raises.
\<close>

record factory =
  parameters :: "string list"
  call :: "string \<Rightarrow> heap \<Rightarrow> (error + nat) \<times> heap"

text \<open>
  \<open>conns\<close> is \<^verbatim>\<open>_conns\<close>, a dict: an association list in insertion order, which is
  the order Python iterates in. \<open>objs\<close> is the store of the connection objects.
  \<open>has_log\<close> says whether the object has the attribute \<^verbatim>\<open>_log\<close>, which the class
  reads at line 103 and never assigns.
\<close>

record pool =
  objs :: heap
  stats :: Stats
  conns :: "(string \<times> ConnectionWithTTLAndLastAccess) list"
  connect_fn :: factory
  has_log :: bool

text \<open>The subclass adds \<^verbatim>\<open>max_conn\<close> and the dict \<^verbatim>\<open>dbs_usage\<close>.\<close>

record pool_limited = pool +
  max_conn :: int
  dbs_usage :: "string \<rightharpoonup> bool"

subsection \<open>Dict operations\<close>

text \<open>\<^verbatim>\<open>d.pop(k, default)\<close>: the value (or \<open>None\<close> for the default) and the dict
  without the key.\<close>

definition dict_pop ::
  "(string \<times> 'v) list \<Rightarrow> string \<Rightarrow> 'v option \<times> (string \<times> 'v) list" where
  "dict_pop d k = (map_of d k, filter (\<lambda>(k', v). k' \<noteq> k) d)"

text \<open>\<^verbatim>\<open>d[k] = v\<close>: an existing key keeps its place, a new one goes last.\<close>

fun dict_set :: "(string \<times> 'v) list \<Rightarrow> string \<Rightarrow> 'v \<Rightarrow> (string \<times> 'v) list" where
  "dict_set [] k v = [(k, v)]"
| "dict_set ((k', v') # d) k v =
     (if k' = k then (k, v) # d else (k', v') # dict_set d k v)"

subsection \<open>Calls on a connection object\<close>

text \<open>\<^verbatim>\<open>db.close()\<close>: counted, then either raises or marks the object closed.\<close>

definition conn_close :: "nat \<Rightarrow> 'a pool_scheme \<Rightarrow> (error + unit) \<times> 'a pool_scheme" where
  "conn_close r s =
     (let o1 = (objs s r)\<lparr>close_calls := Suc (close_calls (objs s r))\<rparr> in
      if close_raises o1 then (Inl DriverError, s\<lparr>objs := (objs s)(r := o1)\<rparr>)
      else (Inr (), s\<lparr>objs := (objs s)(r := o1\<lparr>closed := True\<rparr>)\<rparr>))"

text \<open>\<^verbatim>\<open>db.rollback()\<close>: either raises or leaves the connection ready.\<close>

definition conn_rollback :: "nat \<Rightarrow> 'a pool_scheme \<Rightarrow> (error + unit) \<times> 'a pool_scheme" where
  "conn_rollback r s =
     (if rollback_raises (objs s r) then (Inl DriverError, s)
      else (Inr (), s\<lparr>objs := (objs s)(r := (objs s r)\<lparr>status := STATUS_READY\<rparr>)\<rparr>))"

subsection \<open>\<^verbatim>\<open>_terminate_connection_unsafe\<close>\<close>

text \<open>
  Lines 95 to 105. The tuple popped at line 96 has three fields and is unpacked into two
  names. A first value that is neither \<^verbatim>\<open>None\<close> nor a connection has no
  \<^verbatim>\<open>close\<close>: the \<^verbatim>\<open>AttributeError\<close> is raised inside the \<^verbatim>\<open>try\<close>.
\<close>

definition close_failed :: "'a pool_scheme \<Rightarrow> (error + bool) \<times> 'a pool_scheme" where
  "close_failed s =
     (let s1 = s\<lparr>stats := (stats s)\<lparr>connection_closed_failed :=
                  connection_closed_failed (stats s) + 1\<rparr>\<rparr> in
      if has_log s1 then (Inr False, s1) else (Inl AttributeError, s1))"

definition terminate_connection_unsafe ::
  "string \<Rightarrow> 'a pool_scheme \<Rightarrow> (error + bool) \<times> 'a pool_scheme" where
  "terminate_connection_unsafe dbname s =
     (let (popped, conns') = dict_pop (conns s) dbname;
          s1 = s\<lparr>conns := conns'\<rparr> in
      case unpack2 (tuple_items popped) of
        Inl e \<Rightarrow> (Inl e, s1)
      | Inr (db, _) \<Rightarrow>
          (case db of
             PyNone \<Rightarrow> (Inr True, s1)
           | PyConn r \<Rightarrow>
               (let s2 = s1\<lparr>stats := (stats s1)\<lparr>connection_closed :=
                             connection_closed (stats s1) + 1\<rparr>\<rparr> in
                case conn_close r s2 of
                  (Inl e, s3) \<Rightarrow> close_failed s3
                | (Inr _, s3) \<Rightarrow> (Inr True, s3))
           | PyDatetime _ \<Rightarrow>
               close_failed (s1\<lparr>stats := (stats s1)\<lparr>connection_closed :=
                             connection_closed (stats s1) + 1\<rparr>\<rparr>)))"

subsection \<open>\<^verbatim>\<open>prune_connections\<close>\<close>

text \<open>
  Lines 79 to 84. \<open>now\<close> is the reading of \<^verbatim>\<open>datetime.datetime.now()\<close>. The loop
  runs over a copy of the items taken before it starts.
\<close>

fun prune_loop ::
  "int \<Rightarrow> (string \<times> ConnectionWithTTLAndLastAccess) list \<Rightarrow> 'a pool_scheme
     \<Rightarrow> (error + unit) \<times> 'a pool_scheme" where
  "prune_loop now [] s = (Inr (), s)"
| "prune_loop now ((dbname, conn) # items) s =
     (if deadline conn < now then
        (case terminate_connection_unsafe dbname
                (s\<lparr>stats := (stats s)\<lparr>connection_pruned :=
                      connection_pruned (stats s) + 1\<rparr>\<rparr>) of
           (Inl e, s') \<Rightarrow> (Inl e, s')
         | (Inr _, s') \<Rightarrow> prune_loop now items s')
      else prune_loop now items s)"

definition prune_connections :: "int \<Rightarrow> 'a pool_scheme \<Rightarrow> (error + unit) \<times> 'a pool_scheme" where
  "prune_connections now s = prune_loop now (conns s) s"

subsection \<open>\<^verbatim>\<open>close_all_connections\<close>\<close>

text \<open>
  Lines 86 to 93. \<^verbatim>\<open>next(iter(self._conns))\<close> is the first key in insertion order.
  Every round that returns has popped that key, so the loop ends.
\<close>

function close_all_loop :: "bool \<Rightarrow> 'a pool_scheme \<Rightarrow> (error + bool) \<times> 'a pool_scheme" where
  "close_all_loop success s =
     (case conns s of
        [] \<Rightarrow> (Inr success, s)
      | (dbname, _) # _ \<Rightarrow>
          (case terminate_connection_unsafe dbname s of
             (Inl e, s') \<Rightarrow> (Inl e, s')
           | (Inr ok, s') \<Rightarrow> close_all_loop (if \<not> ok then False else success) s'))"
  by pat_completeness auto
termination
proof (relation "measure (\<lambda>(success, s). length (conns s))")
  show "wf (measure (\<lambda>(success, s). length (conns s)))"
    by simp
next
  fix success :: bool and s s' :: "'a pool_scheme" and item items dbname c r ok
  assume nonempty: "conns s = item # items"
    and first: "(dbname, c) = item"
    and result: "(r, s') = terminate_connection_unsafe dbname s"
    and returned: "r = Inr ok"
  have "conns (snd (terminate_connection_unsafe dbname s)) = snd (dict_pop (conns s) dbname)"
    by (simp add: terminate_connection_unsafe_def close_failed_def conn_close_def Let_def
          split: prod.splits sum.splits pyval.splits)
  then have "conns s' = snd (dict_pop (conns s) dbname)"
    using result by (metis snd_conv)
  also have "length \<dots> < length (conns s)"
    using nonempty first by (auto simp: dict_pop_def less_Suc_eq_le)
  finally show "((if \<not> ok then False else success, s'), success, s)
                  \<in> measure (\<lambda>(success, s). length (conns s))"
    by simp
qed

declare close_all_loop.simps [simp del]

definition close_all_connections :: "'a pool_scheme \<Rightarrow> (error + bool) \<times> 'a pool_scheme" where
  "close_all_connections s = close_all_loop True s"

subsection \<open>\<^verbatim>\<open>__init__\<close>\<close>

text \<open>\<^verbatim>\<open>hasattr(inspect, 'signature')\<close>: true on every Python that can load the module,
  whose annotations need Python 3.6.\<close>

definition inspect_has_signature :: bool where
  "inspect_has_signature = True"

text \<open>Lines 40 to 52. \<open>h\<close> is the store of connection objects at the time of the call.\<close>

definition init :: "factory \<Rightarrow> heap \<Rightarrow> error + pool" where
  "init f h =
     (if inspect_has_signature \<and> length (parameters f) \<noteq> 1 then Inl ValueError
      else Inr \<lparr>objs = h,
                stats = \<lparr>connection_opened = 0, connection_pruned = 0,
                         connection_closed = 0, connection_closed_failed = 0\<rparr>,
                conns = [],
                connect_fn = f,
                has_log = False\<rparr>)"

subsection \<open>\<^verbatim>\<open>get_connection\<close> of the base pool\<close>

text \<open>
  \<^verbatim>\<open>datetime.datetime.now() + datetime.timedelta(milliseconds=ttl_ms)\<close>: both the
  \<^verbatim>\<open>timedelta\<close> (at most 999999999 days in magnitude) and the sum (years 1 to 9999)
  raise \<^verbatim>\<open>OverflowError\<close> out of range.
\<close>

definition timedelta_min :: int where
  "timedelta_min = - (999999999 * 86400000000)"

definition timedelta_max :: int where
  "timedelta_max = 1000000000 * 86400000000 - 1"

definition datetime_max :: int where
  "datetime_max = 3652059 * 86400000000 - 1"

definition datetime_add_ms :: "int \<Rightarrow> int \<Rightarrow> error + int" where
  "datetime_add_ms now ms =
     (let d = 1000 * ms in
      if d < timedelta_min \<or> timedelta_max < d then Inl OverflowError
      else if now + d < 0 \<or> datetime_max < now + d then Inl OverflowError
      else Inr (now + d))"

text \<open>Lines 60 and 61: count, then call the factory.\<close>

definition connect_new :: "string \<Rightarrow> 'a pool_scheme \<Rightarrow> (error + nat) \<times> 'a pool_scheme" where
  "connect_new dbname s =
     (let s1 = s\<lparr>stats := (stats s)\<lparr>connection_opened := connection_opened (stats s) + 1\<rparr>\<rparr> in
      case call (connect_fn s1) dbname (objs s1) of
        (Inl e, h) \<Rightarrow> (Inl e, s1\<lparr>objs := h\<rparr>)
      | (Inr db, h) \<Rightarrow> (Inr db, s1\<lparr>objs := h\<rparr>))"

text \<open>Lines 58 to 61: the stored connection if there is one and it is open, a new one
  otherwise.\<close>

definition usable_or_new ::
  "string \<Rightarrow> ConnectionWithTTLAndLastAccess option \<Rightarrow> 'a pool_scheme
     \<Rightarrow> (error + nat) \<times> 'a pool_scheme" where
  "usable_or_new dbname conn s =
     (case conn of
        None \<Rightarrow> connect_new dbname s
      | Some c \<Rightarrow>
          if closed (objs s (connection c)) then connect_new dbname s
          else (Inr (connection c), s))"

text \<open>
  Lines 54 to 69. \<open>now0\<close>, \<open>now1\<close> and \<open>now2\<close> are the three readings of the clock, in
  the order the method takes them: in \<^verbatim>\<open>prune_connections\<close>, for the deadline, and
  for \<^verbatim>\<open>last_access\<close>.
\<close>

definition get_connection ::
  "string \<Rightarrow> int \<Rightarrow> int \<Rightarrow> int \<Rightarrow> int \<Rightarrow> 'a pool_scheme
     \<Rightarrow> (error + nat) \<times> 'a pool_scheme" where
  "get_connection dbname ttl_ms now0 now1 now2 s =
     (case prune_connections now0 s of
        (Inl e, s0) \<Rightarrow> (Inl e, s0)
      | (Inr _, s0) \<Rightarrow>
          (let (conn, conns') = dict_pop (conns s0) dbname;
               s1 = s0\<lparr>conns := conns'\<rparr> in
           case usable_or_new dbname conn s1 of
             (Inl e, s2) \<Rightarrow> (Inl e, s2)
           | (Inr db, s2) \<Rightarrow>
               (case (if status (objs s2 db) \<noteq> STATUS_READY then conn_rollback db s2
                      else (Inr (), s2)) of
                  (Inl e, s3) \<Rightarrow> (Inl e, s3)
                | (Inr _, s3) \<Rightarrow>
                    (case datetime_add_ms now1 ttl_ms of
                       Inl e \<Rightarrow> (Inl e, s3)
                     | Inr dl \<Rightarrow>
                         (Inr db,
                          s3\<lparr>conns := dict_set (conns s3) dbname
                                \<lparr>connection = db, deadline = dl, last_access = now2\<rparr>\<rparr>)))))"

subsection \<open>The bounded pool\<close>

text \<open>Lines 112 to 116.\<close>

definition init_limited :: "factory \<Rightarrow> int \<Rightarrow> heap \<Rightarrow> error + pool_limited" where
  "init_limited f n h =
     (case init f h of
        Inl e \<Rightarrow> Inl e
      | Inr p \<Rightarrow>
          Inr \<lparr>objs = objs p, stats = stats p, conns = [], connect_fn = connect_fn p,
               has_log = has_log p, max_conn = n, dbs_usage = Map.empty\<rparr>)"

text \<open>
  \<^verbatim>\<open>dbs_usage\<close> is a public attribute, and the comment at line 115 asks the users of
  the pool to write it: \<^verbatim>\<open>pool.dbs_usage[dbname] = b\<close>, from outside the class.
\<close>

definition mark_usage ::
  "string \<Rightarrow> bool \<Rightarrow> 'a pool_limited_scheme \<Rightarrow> 'a pool_limited_scheme" where
  "mark_usage dbname b s = s\<lparr>dbs_usage := (dbs_usage s)(dbname \<mapsto> b)\<rparr>"

text \<open>\<^verbatim>\<open>min(iterable, key=f)\<close> on a non-empty iterable: the first element whose key
  no other one is below.\<close>

fun min_by :: "('a \<Rightarrow> int) \<Rightarrow> 'a \<Rightarrow> 'a list \<Rightarrow> 'a" where
  "min_by f m [] = m"
| "min_by f m (x # xs) = min_by f (if f x < f m then x else m) xs"

text \<open>
  Lines 118 to 130. The key of \<^verbatim>\<open>min\<close> looks each name up in the dict it comes from,
  which is the \<open>last_access\<close> of the item. \<^verbatim>\<open>self.dbs_usage[lru]\<close> raises
  \<^verbatim>\<open>KeyError\<close> for a name the dict does not hold.
\<close>

definition evict_lru :: "'a pool_limited_scheme \<Rightarrow> (error + unit) \<times> 'a pool_limited_scheme" where
  "evict_lru s =
     (case conns s of
        [] \<Rightarrow> (Inr (), s)
      | item # items \<Rightarrow>
          (let lru = fst (min_by (\<lambda>(k, c). last_access c) item items) in
           case dbs_usage s lru of
             None \<Rightarrow> (Inl KeyError, s)
           | Some in_use \<Rightarrow>
               if in_use then (Inr (), s)
               else (case dict_pop (conns s) lru of
                       (None, _) \<Rightarrow> (Inl KeyError, s)
                     | (Some _, conns') \<Rightarrow> (Inr (), s\<lparr>conns := conns'\<rparr>))))"

text \<open>Lines 144 and 145. The loop has no bound of its own: \<open>None\<close> is a loop that
  never ends.\<close>

partial_function (option) evict_loop ::
  "'a pool_limited_scheme \<Rightarrow> ((error + unit) \<times> 'a pool_limited_scheme) option" where
  "evict_loop s =
     (if int (length (conns s)) > max_conn s then
        (case evict_lru s of
           (Inl e, s') \<Rightarrow> Some (Inl e, s')
         | (Inr _, s') \<Rightarrow> evict_loop s')
      else Some (Inr (), s))"

text \<open>
  Lines 132 to 148. Four readings of the clock: one for the method's own
  \<^verbatim>\<open>prune_connections\<close>, three for the base method.
\<close>

definition get_connection_limited ::
  "string \<Rightarrow> int \<Rightarrow> int \<Rightarrow> int \<Rightarrow> int \<Rightarrow> int \<Rightarrow> 'a pool_limited_scheme
     \<Rightarrow> ((error + nat) \<times> 'a pool_limited_scheme) option" where
  "get_connection_limited dbname ttl_ms now0 now1 now2 now3 s =
     (case prune_connections now0 s of
        (Inl e, s0) \<Rightarrow> Some (Inl e, s0)
      | (Inr _, s0) \<Rightarrow>
          (let db_pool_len = int (length (conns s0)) in
           if db_pool_len < max_conn s0 then
             (case get_connection dbname ttl_ms now1 now2 now3 s0 of
                (Inl e, s1) \<Rightarrow> Some (Inl e, s1)
              | (Inr conn, s1) \<Rightarrow>
                  Some (Inr conn, s1\<lparr>dbs_usage := (dbs_usage s1)(dbname \<mapsto> True)\<rparr>))
           else
             (case evict_loop s0 of
                None \<Rightarrow> None
              | Some (Inl e, s1) \<Rightarrow> Some (Inl e, s1)
              | Some (Inr _, s1) \<Rightarrow> Some (get_connection dbname ttl_ms now1 now2 now3 s1))))"

subsection \<open>Example objects and pool states\<close>

text \<open>
  An open, ready connection whose \<^verbatim>\<open>close()\<close> and \<^verbatim>\<open>rollback()\<close> succeed, a
  store holding nothing else, and a factory of one parameter that returns the object
  numbered by the name it is given.
\<close>

definition open_conn :: connection_obj where
  "open_conn = \<lparr>closed = False, status = 1, close_raises = False,
                 rollback_raises = False, close_calls = 0\<rparr>"

definition heap0 :: heap where
  "heap0 = (\<lambda>_. open_conn)"

definition conn_id :: "string \<Rightarrow> nat" where
  "conn_id dbname = foldr (\<lambda>ch n. of_char ch + 256 * n) dbname 0"

definition example_connect :: factory where
  "example_connect =
     \<lparr>parameters = [''dbname''], call = (\<lambda>dbname h. (Inr (conn_id dbname), h))\<rparr>"

definition zero_stats :: Stats where
  "zero_stats = \<lparr>connection_opened = 0, connection_pruned = 0,
                  connection_closed = 0, connection_closed_failed = 0\<rparr>"

text \<open>
  The base pool after \<^verbatim>\<open>get_connection("a", 1000)\<close> and
  \<^verbatim>\<open>get_connection("b", 1000)\<close>, with the clock read as 0, 1, 2 and then 3, 4, 5
  microseconds.
\<close>

definition entry_a :: ConnectionWithTTLAndLastAccess where
  "entry_a = \<lparr>connection = 97, deadline = 1000001, last_access = 2\<rparr>"

definition entry_b :: ConnectionWithTTLAndLastAccess where
  "entry_b = \<lparr>connection = 98, deadline = 1000004, last_access = 5\<rparr>"

definition pool_new :: pool where
  "pool_new = \<lparr>objs = heap0, stats = zero_stats, conns = [],
                connect_fn = example_connect, has_log = False\<rparr>"

definition pool_a :: pool where
  "pool_a = pool_new\<lparr>stats := zero_stats\<lparr>connection_opened := 1\<rparr>,
                     conns := [(''a'', entry_a)]\<rparr>"

definition pool_ab :: pool where
  "pool_ab = pool_new\<lparr>stats := zero_stats\<lparr>connection_opened := 2\<rparr>,
                      conns := [(''a'', entry_a), (''b'', entry_b)]\<rparr>"

text \<open>
  The bounded pool over the same objects, with \<open>n\<close> as \<^verbatim>\<open>max_conn\<close>, the entries
  \<open>cs\<close>, the marks \<open>u\<close> and \<open>k\<close> connections opened so far; and the entry that
  \<^verbatim>\<open>get_connection("c", 1000)\<close> stores when the clock reads 7 and 8 microseconds.
\<close>

definition entry_c :: ConnectionWithTTLAndLastAccess where
  "entry_c = \<lparr>connection = 99, deadline = 1000007, last_access = 8\<rparr>"

definition lim_pool ::
  "int \<Rightarrow> (string \<times> ConnectionWithTTLAndLastAccess) list \<Rightarrow> (string \<rightharpoonup> bool) \<Rightarrow> int
     \<Rightarrow> pool_limited" where
  "lim_pool n cs u k =
     \<lparr>objs = heap0, stats = zero_stats\<lparr>connection_opened := k\<rparr>, conns = cs,
      connect_fn = example_connect, has_log = False, max_conn = n, dbs_usage = u\<rparr>"

text \<open>
  A factory that always raises, a factory of two parameters, and a store where the
  connection of "a" is closed.
\<close>

definition failing_connect :: factory where
  "failing_connect =
     \<lparr>parameters = [''dbname''], call = (\<lambda>dbname h. (Inl (ConnectError dbname), h))\<rparr>"

definition two_parameter_connect :: factory where
  "two_parameter_connect =
     \<lparr>parameters = [''dbname'', ''timeout''],
      call = (\<lambda>dbname h. (Inr (conn_id dbname), h))\<rparr>"

definition heap_a_closed :: heap where
  "heap_a_closed = heap0(97 := open_conn\<lparr>closed := True\<rparr>)"

text \<open>
  The base pool after \<^verbatim>\<open>get_connection("b", 100)\<close> and
  \<^verbatim>\<open>get_connection("a", 10000)\<close>, with the clock read as 0, 1, 2 and then 3, 4, 5
  microseconds: "b" expires after 0.1 seconds, "a" after 10 seconds.
\<close>

definition entry_b_short :: ConnectionWithTTLAndLastAccess where
  "entry_b_short = \<lparr>connection = 98, deadline = 100001, last_access = 2\<rparr>"

definition entry_a_long :: ConnectionWithTTLAndLastAccess where
  "entry_a_long = \<lparr>connection = 97, deadline = 10000004, last_access = 5\<rparr>"

definition pool_b_short :: pool where
  "pool_b_short = pool_new\<lparr>stats := zero_stats\<lparr>connection_opened := 1\<rparr>,
                           conns := [(''b'', entry_b_short)]\<rparr>"

definition pool_ba :: pool where
  "pool_ba = pool_new\<lparr>stats := zero_stats\<lparr>connection_opened := 2\<rparr>,
                      conns := [(''b'', entry_b_short), (''a'', entry_a_long)]\<rparr>"

lemmas example_defs = open_conn_def heap0_def conn_id_def example_connect_def zero_stats_def
  entry_a_def entry_b_def pool_new_def pool_a_def pool_ab_def
  entry_b_short_def entry_a_long_def pool_b_short_def pool_ba_def

lemmas limited_defs = lim_pool_def entry_c_def mark_usage_def get_connection_limited_def

lemmas acquire_defs = get_connection_def prune_connections_def dict_pop_def usable_or_new_def
  connect_new_def STATUS_READY_def datetime_add_ms_def timedelta_min_def timedelta_max_def
  datetime_max_def

section \<open>What the methods do\<close>

subsection \<open>The unpacking at line 96\<close>

text \<open>
  The named tuple has three fields, so the unpacking into two names raises in every
  state and for every name, after \<^verbatim>\<open>pop\<close> has removed the entry and before anything
  is closed or counted.
\<close>

lemma terminate_connection_unsafe_raises:
  "terminate_connection_unsafe dbname s =
     (Inl ValueError, s\<lparr>conns := snd (dict_pop (conns s) dbname)\<rparr>)"
  by (simp add: terminate_connection_unsafe_def tuple_items_def unpack2_def
        split: prod.splits option.splits)

text \<open>Hence pruning ends at the first expired entry of its copy of the items.\<close>

lemma prune_loop_first_expired:
  "prune_loop now items s =
     (case find (\<lambda>(k, c). deadline c < now) items of
        None \<Rightarrow> (Inr (), s)
      | Some (k, c) \<Rightarrow>
          (Inl ValueError,
           s\<lparr>stats := (stats s)\<lparr>connection_pruned := connection_pruned (stats s) + 1\<rparr>,
             conns := snd (dict_pop (conns s) k)\<rparr>))"
  by (induction items) (auto simp: terminate_connection_unsafe_raises)

text \<open>And closing all connections ends at the first entry.\<close>

lemma close_all_loop_first:
  "close_all_loop success s =
     (case conns s of
        [] \<Rightarrow> (Inr success, s)
      | (k, c) # _ \<Rightarrow> (Inl ValueError, s\<lparr>conns := snd (dict_pop (conns s) k)\<rparr>))"
  by (subst close_all_loop.simps)
     (simp add: terminate_connection_unsafe_raises split: list.splits)

subsection \<open>The example states are states of the pool\<close>

lemma pool_new_reached: "init example_connect heap0 = Inr pool_new"
  by (simp add: init_def example_defs)

lemma pool_a_reached: "get_connection ''a'' 1000 0 1 2 pool_new = (Inr 97, pool_a)"
  by (simp add: acquire_defs example_defs)

lemma pool_ab_reached: "get_connection ''b'' 1000 3 4 5 pool_a = (Inr 98, pool_ab)"
  by (simp add: acquire_defs example_defs)

lemma pool_b_short_reached:
  "get_connection ''b'' 100 0 1 2 pool_new = (Inr 98, pool_b_short)"
  by (simp add: acquire_defs example_defs)

lemma pool_ba_reached:
  "get_connection ''a'' 10000 3 4 5 pool_b_short = (Inr 97, pool_ba)"
  by (simp add: acquire_defs example_defs)

subsection \<open>Pruning when nothing has expired, and storing\<close>

lemma map_of_dict_set: "map_of (dict_set d k v) k = Some v"
  by (induction d) auto

lemma prune_connections_none_expired:
  "\<forall>(k, c) \<in> set (conns s). \<not> deadline c < now \<Longrightarrow> prune_connections now s = (Inr (), s)"
proof -
  assume "\<forall>(k, c) \<in> set (conns s). \<not> deadline c < now"
  then have "find (\<lambda>(k, c). deadline c < now) (conns s) = None"
    by (auto simp: find_None_iff)
  then show ?thesis
    by (simp add: prune_connections_def prune_loop_first_expired)
qed

lemma prune_connections_returns:
  "fst (prune_connections now s) = Inr () \<Longrightarrow> prune_connections now s = (Inr (), s)"
  by (auto simp: prune_connections_def prune_loop_first_expired split: option.splits)

lemma get_connection_stores:
  assumes "get_connection dbname ttl_ms now0 now1 now2 s = (Inr c, s1)"
  shows "\<exists>dl. map_of (conns s1) dbname
                 = Some \<lparr>connection = c, deadline = dl, last_access = now2\<rparr>"
  using assms
  by (auto simp: get_connection_def Let_def map_of_dict_set
      split: prod.splits sum.splits if_splits)

text \<open>No step of \<^verbatim>\<open>get_connection\<close> reads the parameter list of the factory.\<close>

lemma get_connection_ignores_parameters:
  "get_connection dbname ttl_ms now0 now1 now2
       (s\<lparr>connect_fn := (connect_fn s)\<lparr>parameters := ps\<rparr>\<rparr>)
     = (fst (get_connection dbname ttl_ms now0 now1 now2 s),
        (snd (get_connection dbname ttl_ms now0 now1 now2 s))
          \<lparr>connect_fn := (connect_fn s)\<lparr>parameters := ps\<rparr>\<rparr>)"
  by (simp add: get_connection_def prune_connections_def prune_loop_first_expired dict_pop_def
        usable_or_new_def connect_new_def conn_rollback_def Let_def
      split: option.splits prod.splits sum.splits)

subsection \<open>Acquiring a name again when nothing has expired\<close>

text \<open>
  When no entry of the pool has expired, the pruning inside \<^verbatim>\<open>get_connection\<close>
  removes nothing, and a stored connection that is open, and ready or able to roll back,
  is returned again without a call of the factory; the entry gets the new deadline and
  the new time of access. \<open>h\<close> is the store of connection objects at the second call.
\<close>

lemma get_connection_again_nothing_expired:
  assumes first: "get_connection dbname ttl1 a0 a1 a2 s = (Inr c, s1)"
    and still_open: "\<not> closed (h c)"
    and healthy: "status (h c) = STATUS_READY \<or> \<not> rollback_raises (h c)"
    and none_expired: "\<forall>(k, e) \<in> set (conns s1). \<not> deadline e < b0"
    and in_range: "datetime_add_ms b1 ttl2 = Inr dl"
  shows "fst (get_connection dbname ttl2 b0 b1 b2 (s1\<lparr>objs := h\<rparr>)) = Inr c
    \<and> connection_opened (stats (snd (get_connection dbname ttl2 b0 b1 b2 (s1\<lparr>objs := h\<rparr>))))
        = connection_opened (stats s1)
    \<and> map_option last_access (map_of (conns s1) dbname) = Some a2
    \<and> map_of (conns (snd (get_connection dbname ttl2 b0 b1 b2 (s1\<lparr>objs := h\<rparr>)))) dbname
        = Some \<lparr>connection = c, deadline = dl, last_access = b2\<rparr>"
proof -
  obtain dl1 where stored:
    "map_of (conns s1) dbname = Some \<lparr>connection = c, deadline = dl1, last_access = a2\<rparr>"
    using get_connection_stores [OF first] by blast
  have pruned: "prune_connections b0 (s1\<lparr>objs := h\<rparr>) = (Inr (), s1\<lparr>objs := h\<rparr>)"
    using none_expired by (simp add: prune_connections_none_expired)
  show ?thesis
    using stored pruned still_open healthy in_range
    by (auto simp: get_connection_def dict_pop_def usable_or_new_def conn_rollback_def
        map_of_dict_set Let_def)
qed

subsection \<open>The eviction loop\<close>

text \<open>At or under \<^verbatim>\<open>max_conn\<close> the loop does not run.\<close>

lemma evict_loop_not_over:
  "\<not> max_conn s < int (length (conns s)) \<Longrightarrow> evict_loop s = Some (Inr (), s)"
  by (subst evict_loop.simps) simp

text \<open>Over \<^verbatim>\<open>max_conn\<close>, a round of \<^verbatim>\<open>_evict_lru\<close> that returns without a change
  is followed by the same round again: the loop never ends.\<close>

lemma evict_loop_stalled:
  assumes "max_conn s < int (length (conns s))" and "evict_lru s = (Inr (), s)"
  shows "evict_loop s = None"
proof (cases "evict_loop s")
  case None
  then show ?thesis .
next
  case (Some y)
  have "\<not> (max_conn s < int (length (conns s)) \<and> evict_lru s = (Inr (), s))"
  proof (rule evict_loop.raw_induct
      [where P = "\<lambda>t y. \<not> (max_conn t < int (length (conns t)) \<and> evict_lru t = (Inr (), t))",
        OF _ Some])
    fix f :: "'a pool_limited_scheme \<Rightarrow> ((error + unit) \<times> 'a pool_limited_scheme) option"
      and t y
    assume ih: "\<And>x y. f x = Some y \<Longrightarrow>
                 \<not> (max_conn x < int (length (conns x)) \<and> evict_lru x = (Inr (), x))"
      and step: "(if max_conn t < int (length (conns t))
                  then case evict_lru t of (Inl e, s') \<Rightarrow> Some (Inl e, s')
                       | (Inr x, s') \<Rightarrow> f s'
                  else Some (Inr (), t)) = Some y"
    show "\<not> (max_conn t < int (length (conns t)) \<and> evict_lru t = (Inr (), t))"
    proof
      assume st: "max_conn t < int (length (conns t)) \<and> evict_lru t = (Inr (), t)"
      with step have "f t = Some y" by simp
      with ih st show False by blast
    qed
  qed
  with assms show ?thesis by simp
qed

text \<open>\<^verbatim>\<open>_evict_lru\<close> touches neither a connection object nor a counter, in any state.\<close>

lemma evict_lru_keeps_objects_and_stats:
  "objs (snd (evict_lru s)) = objs s \<and> stats (snd (evict_lru s)) = stats s"
  by (simp add: evict_lru_def Let_def split: list.splits option.splits prod.splits)

subsection \<open>The example states of the bounded pool are states of the pool\<close>

text \<open>With \<^verbatim>\<open>max_conn = 2\<close>, the user marking each connection idle after its use.\<close>

lemma lim2_new_reached:
  "init_limited example_connect 2 heap0 = Inr (lim_pool 2 [] Map.empty 0)"
  by (simp add: init_limited_def init_def inspect_has_signature_def limited_defs example_defs)

lemma lim2_a_reached:
  "get_connection_limited ''a'' 1000 0 0 1 2 (lim_pool 2 [] Map.empty 0)
     = Some (Inr 97, lim_pool 2 [(''a'', entry_a)] [''a'' \<mapsto> True] 1)"
  by (simp add: limited_defs acquire_defs example_defs)

lemma lim2_ab_reached:
  "get_connection_limited ''b'' 1000 3 3 4 5
       (mark_usage ''a'' False (lim_pool 2 [(''a'', entry_a)] [''a'' \<mapsto> True] 1))
     = Some (Inr 98, lim_pool 2 [(''a'', entry_a), (''b'', entry_b)]
                        [''a'' \<mapsto> False, ''b'' \<mapsto> True] 2)"
  by (simp add: limited_defs acquire_defs example_defs)

lemma lim2_ab_idle_reached:
  "mark_usage ''b'' False
       (lim_pool 2 [(''a'', entry_a), (''b'', entry_b)] [''a'' \<mapsto> False, ''b'' \<mapsto> True] 2)
     = lim_pool 2 [(''a'', entry_a), (''b'', entry_b)] [''a'' \<mapsto> False, ''b'' \<mapsto> False] 2"
  by (simp add: limited_defs)

text \<open>With \<^verbatim>\<open>max_conn = 1\<close>: the second \<^verbatim>\<open>get_connection\<close> finds the pool at
  capacity, adds "b" all the same and leaves it without a mark.\<close>

lemma lim1_new_reached:
  "init_limited example_connect 1 heap0 = Inr (lim_pool 1 [] Map.empty 0)"
  by (simp add: init_limited_def init_def inspect_has_signature_def limited_defs example_defs)

lemma lim1_a_reached:
  "get_connection_limited ''a'' 1000 0 0 1 2 (lim_pool 1 [] Map.empty 0)
     = Some (Inr 97, lim_pool 1 [(''a'', entry_a)] [''a'' \<mapsto> True] 1)"
  by (simp add: limited_defs acquire_defs example_defs)

lemma lim1_ab_reached:
  "get_connection_limited ''b'' 1000 3 3 4 5 (lim_pool 1 [(''a'', entry_a)] [''a'' \<mapsto> True] 1)
     = Some (Inr 98, lim_pool 1 [(''a'', entry_a), (''b'', entry_b)] [''a'' \<mapsto> True] 2)"
  by (simp add: limited_defs evict_loop_not_over acquire_defs example_defs)

lemma lim1_ab_busy_reached:
  "mark_usage ''b'' True (lim_pool 1 [(''a'', entry_a), (''b'', entry_b)] [''a'' \<mapsto> True] 2)
     = lim_pool 1 [(''a'', entry_a), (''b'', entry_b)] [''a'' \<mapsto> True, ''b'' \<mapsto> True] 2"
  by (simp add: limited_defs)

lemma lim1_a_idle_reached:
  "mark_usage ''a'' False (lim_pool 1 [(''a'', entry_a), (''b'', entry_b)] [''a'' \<mapsto> True] 2)
     = lim_pool 1 [(''a'', entry_a), (''b'', entry_b)] [''a'' \<mapsto> False] 2"
  by (simp add: limited_defs)

subsection \<open>Three names in a row, with no write to \<^verbatim>\<open>dbs_usage\<close> from outside\<close>

text \<open>With \<^verbatim>\<open>max_conn = 2\<close> the third name is added to the two that are there.\<close>

lemma lim2_three_names_all_kept:
  "get_connection_limited ''c'' 1000 6 6 7 8
       (lim_pool 2 [(''a'', entry_a), (''b'', entry_b)] [''a'' \<mapsto> True, ''b'' \<mapsto> True] 2)
     = Some (Inr 99,
             lim_pool 2 [(''a'', entry_a), (''b'', entry_b), (''c'', entry_c)]
                      [''a'' \<mapsto> True, ''b'' \<mapsto> True] 3)"
  by (simp add: limited_defs evict_loop_not_over acquire_defs example_defs)

text \<open>With \<^verbatim>\<open>max_conn = 1\<close> the third call never returns: the least recently used
  entry is "a", which the first call marked.\<close>

lemma lim1_three_names_never_returns:
  "get_connection_limited ''c'' 1000 6 6 7 8
       (lim_pool 1 [(''a'', entry_a), (''b'', entry_b)] [''a'' \<mapsto> True] 2)
     = None"
proof -
  let ?s = "lim_pool 1 [(''a'', entry_a), (''b'', entry_b)] [''a'' \<mapsto> True] 2"
  have over: "max_conn ?s < int (length (conns ?s))"
    by (simp add: lim_pool_def)
  have same: "evict_lru ?s = (Inr (), ?s)"
    by (simp add: evict_lru_def Let_def lim_pool_def example_defs)
  have "evict_loop ?s = None"
    using over same by (rule evict_loop_stalled)
  moreover have "prune_connections 6 ?s = (Inr (), ?s)"
    by (simp add: prune_connections_def lim_pool_def example_defs)
  ultimately show ?thesis
    using over by (simp add: get_connection_limited_def)
qed

subsection \<open>An eviction inside \<^verbatim>\<open>get_connection\<close>\<close>

text \<open>With \<^verbatim>\<open>max_conn = 1\<close>, "a" marked idle by the user and "b" beside it, the third
  call drops "a" from the map and stores "c". The connection objects are the ones of
  before: the connection of "a" is still open.\<close>

lemma lim1_eviction_inside_acquire:
  "get_connection_limited ''c'' 1000 6 6 7 8
       (lim_pool 1 [(''a'', entry_a), (''b'', entry_b)] [''a'' \<mapsto> False] 2)
     = Some (Inr 99, lim_pool 1 [(''b'', entry_b), (''c'', entry_c)] [''a'' \<mapsto> False] 3)"
proof -
  let ?s = "lim_pool 1 [(''a'', entry_a), (''b'', entry_b)] [''a'' \<mapsto> False] 2"
  let ?t = "lim_pool 1 [(''b'', entry_b)] [''a'' \<mapsto> False] 2"
  have "evict_lru ?s = (Inr (), ?t)"
    by (simp add: evict_lru_def Let_def dict_pop_def lim_pool_def example_defs)
  moreover have "evict_loop ?t = Some (Inr (), ?t)"
    by (rule evict_loop_not_over) (simp add: lim_pool_def)
  ultimately have "evict_loop ?s = Some (Inr (), ?t)"
    by (subst evict_loop.simps) (simp add: lim_pool_def)
  moreover have "prune_connections 6 ?s = (Inr (), ?s)"
    by (simp add: prune_connections_def lim_pool_def example_defs)
  moreover have "get_connection ''c'' 1000 6 7 8 ?t
      = (Inr 99, lim_pool 1 [(''b'', entry_b), (''c'', entry_c)] [''a'' \<mapsto> False] 3)"
    by (simp add: limited_defs acquire_defs example_defs)
  ultimately show ?thesis
    by (simp add: get_connection_limited_def lim_pool_def)
qed

section \<open>The claims\<close>

text \<open>
  C1. With \<^verbatim>\<open>max_conn = N\<close>, acquiring \<open>N + 1\<close> names that are not marked in use is
  claimed to leave at most \<open>N\<close> entries, the least recently used one evicted; with
  \<open>N = 2\<close> and "a", "b", "c", to leave "b" and "c". On the pool with \<^verbatim>\<open>max_conn = 2\<close>
  that holds "a" and "b", both marked idle by the user, the loop at line 144 runs only
  while there are more than two entries: nothing is evicted, "c" is added, and the pool
  holds the three entries "a", "b" and "c".
\<close>

theorem third_name_at_capacity_evicts_nothing:
  "get_connection_limited ''c'' 1000 6 6 7 8
       (lim_pool 2 [(''a'', entry_a), (''b'', entry_b)] [''a'' \<mapsto> False, ''b'' \<mapsto> False] 2)
     = Some (Inr 99,
             lim_pool 2 [(''a'', entry_a), (''b'', entry_b), (''c'', entry_c)]
                      [''a'' \<mapsto> False, ''b'' \<mapsto> False] 3)"
  by (simp add: limited_defs evict_loop_not_over acquire_defs example_defs)

text \<open>
  C2. \<^verbatim>\<open>close_all_connections\<close> is claimed to empty the map and to return whether every
  close succeeded. On the pool holding "a" and "b", both open and both closing without
  error, the method raises \<^verbatim>\<open>ValueError\<close> out of the first
  \<^verbatim>\<open>_terminate_connection_unsafe\<close>: it returns nothing, "b" stays in the map, no
  connection object has changed and no counter has moved.
\<close>

theorem close_all_connections_raises:
  "close_all_connections pool_ab = (Inl ValueError, pool_ab\<lparr>conns := [(''b'', entry_b)]\<rparr>)"
  by (simp add: close_all_connections_def close_all_loop_first dict_pop_def example_defs)

text \<open>
  C3. \<^verbatim>\<open>_terminate_connection_unsafe\<close> is claimed to remove the entry, to attempt the
  close and to count it. On the pool holding "a", the entry is removed, and the method
  raises \<^verbatim>\<open>ValueError\<close> before the close: \<^verbatim>\<open>close()\<close> has not been called on the
  connection, and neither the closed nor the closed-failed counter has moved.
\<close>

theorem terminate_entry_never_closes:
  "terminate_connection_unsafe ''a'' pool_a = (Inl ValueError, pool_a\<lparr>conns := []\<rparr>)
   \<and> close_calls (objs (snd (terminate_connection_unsafe ''a'' pool_a)) 97) = 0
   \<and> connection_closed (stats (snd (terminate_connection_unsafe ''a'' pool_a))) = 0
   \<and> connection_closed_failed (stats (snd (terminate_connection_unsafe ''a'' pool_a))) = 0"
  by (simp add: terminate_connection_unsafe_raises dict_pop_def example_defs)

text \<open>
  C4. \<^verbatim>\<open>prune_connections\<close> is claimed to remove every expired entry, counting and
  closing each one once. On the pool holding "a" and "b", both expired at 1.6 seconds,
  the method raises \<^verbatim>\<open>ValueError\<close> at the first of them: "a" is removed and counted
  as pruned, its connection is not closed, and "b" stays in the map.
\<close>

theorem prune_stops_at_first_expired:
  "prune_connections 1600000 pool_ab =
     (Inl ValueError,
      pool_ab\<lparr>stats := zero_stats\<lparr>connection_opened := 2, connection_pruned := 1\<rparr>,
              conns := [(''b'', entry_b)]\<rparr>)"
  by (simp add: prune_connections_def prune_loop_first_expired dict_pop_def example_defs)

text \<open>
  C5. With every entry marked in use, acquiring a new name is claimed to return a
  connection in any state of the bounded pool. On the pool with \<^verbatim>\<open>max_conn = 1\<close>
  that holds "a" and "b", both marked in use, \<^verbatim>\<open>get_connection("c", 1000)\<close> never
  returns: \<^verbatim>\<open>_evict_lru\<close> returns without a change and the loop at line 144 calls
  it again, for ever.
\<close>

theorem acquire_over_capacity_all_in_use_never_returns:
  "get_connection_limited ''c'' 1000 6 6 7 8
       (lim_pool 1 [(''a'', entry_a), (''b'', entry_b)] [''a'' \<mapsto> True, ''b'' \<mapsto> True] 2)
     = None"
proof -
  let ?s = "lim_pool 1 [(''a'', entry_a), (''b'', entry_b)] [''a'' \<mapsto> True, ''b'' \<mapsto> True] 2"
  have over: "max_conn ?s < int (length (conns ?s))"
    by (simp add: lim_pool_def)
  have same: "evict_lru ?s = (Inr (), ?s)"
    by (simp add: evict_lru_def Let_def lim_pool_def example_defs)
  have "evict_loop ?s = None"
    using over same by (rule evict_loop_stalled)
  moreover have "prune_connections 6 ?s = (Inr (), ?s)"
    by (simp add: prune_connections_def lim_pool_def example_defs)
  ultimately show ?thesis
    using over by (simp add: get_connection_limited_def)
qed

text \<open>
  C6. An eviction is claimed to close the connection of its victim through
  \<^verbatim>\<open>_terminate_connection_unsafe\<close> and to count it. On the pool with
  \<^verbatim>\<open>max_conn = 1\<close> that holds "a", marked idle, and "b", \<^verbatim>\<open>_evict_lru\<close> removes
  "a" from the map and nothing else: \<^verbatim>\<open>close()\<close> has not been called on its
  connection, which is still open, and neither counter has moved.
\<close>

theorem evict_lru_pops_without_closing:
  "evict_lru (lim_pool 1 [(''a'', entry_a), (''b'', entry_b)] [''a'' \<mapsto> False] 2)
     = (Inr (), lim_pool 1 [(''b'', entry_b)] [''a'' \<mapsto> False] 2)
   \<and> close_calls (objs (lim_pool 1 [(''b'', entry_b)] [''a'' \<mapsto> False] 2) 97) = 0
   \<and> \<not> closed (objs (lim_pool 1 [(''b'', entry_b)] [''a'' \<mapsto> False] 2) 97)
   \<and> connection_closed (stats (lim_pool 1 [(''b'', entry_b)] [''a'' \<mapsto> False] 2)) = 0
   \<and> connection_closed_failed (stats (lim_pool 1 [(''b'', entry_b)] [''a'' \<mapsto> False] 2)) = 0"
  by (simp add: evict_lru_def Let_def dict_pop_def lim_pool_def example_defs)

text \<open>
  C7. Acquiring a name again within its TTL, its stored connection still open, is
  claimed to return the same connection with a later time of access. On the pool that
  holds "b", acquired for 0.1 seconds, and "a", acquired for 10 seconds, "a" is
  acquired again at 0.5 seconds: its connection is open and ready and its deadline has
  not passed. The pruning at line 55 finds "b" expired and
  \<^verbatim>\<open>_terminate_connection_unsafe\<close> raises \<^verbatim>\<open>ValueError\<close> at line 96: the call
  returns no connection, and the entry of "a" keeps the time of access of the first
  call.
\<close>

theorem reacquire_raises_when_another_entry_expired:
  "get_connection ''a'' 10000 500000 500001 500002 pool_ba
     = (Inl ValueError,
        pool_ba\<lparr>stats := zero_stats\<lparr>connection_opened := 2, connection_pruned := 1\<rparr>,
                conns := [(''a'', entry_a_long)]\<rparr>)
   \<and> \<not> closed (objs pool_ba (connection entry_a_long))
   \<and> status (objs pool_ba (connection entry_a_long)) = STATUS_READY
   \<and> \<not> deadline entry_a_long < 500000
   \<and> last_access entry_a_long = 5"
  by (simp add: get_connection_def prune_connections_def prune_loop_first_expired dict_pop_def
        STATUS_READY_def example_defs)

text \<open>
  C8. A second \<^verbatim>\<open>prune_connections\<close> at the same clock reading is claimed to change
  nothing. On the pool holding "a" and "b", both expired, the first call removes "a"
  only, and the second removes "b" and counts a second pruned entry: the state after the
  second call is not the state after the first.
\<close>

theorem prune_twice_differs:
  "snd (prune_connections 1600000 (snd (prune_connections 1600000 pool_ab)))
     = pool_ab\<lparr>stats := zero_stats\<lparr>connection_opened := 2, connection_pruned := 2\<rparr>,
              conns := []\<rparr>
   \<and> snd (prune_connections 1600000 (snd (prune_connections 1600000 pool_ab)))
     \<noteq> snd (prune_connections 1600000 pool_ab)"
  by (simp add: prune_connections_def prune_loop_first_expired dict_pop_def example_defs)

text \<open>
  C9. A factory whose signature does not have exactly one parameter makes the
  construction of the pool, base or bounded, raise \<^verbatim>\<open>ValueError\<close>; a factory of
  one parameter gives the empty pool. The check is made there only:
  \<^verbatim>\<open>get_connection\<close> does the same on a pool whatever parameter list its factory has.
\<close>

theorem init_checks_signature_at_construction:
  "(length (parameters f) \<noteq> 1 \<longrightarrow>
      init f h = Inl ValueError \<and> init_limited f n h = Inl ValueError)
   \<and> (length (parameters f) = 1 \<longrightarrow>
      init f h = Inr \<lparr>objs = h, stats = zero_stats, conns = [], connect_fn = f,
                      has_log = False\<rparr>
      \<and> init_limited f n h = Inr \<lparr>objs = h, stats = zero_stats, conns = [], connect_fn = f,
                      has_log = False, max_conn = n, dbs_usage = Map.empty\<rparr>)
   \<and> get_connection dbname ttl_ms now0 now1 now2
         (s\<lparr>connect_fn := (connect_fn s)\<lparr>parameters := ps\<rparr>\<rparr>)
       = (fst (get_connection dbname ttl_ms now0 now1 now2 s),
          (snd (get_connection dbname ttl_ms now0 now1 now2 s))
            \<lparr>connect_fn := (connect_fn s)\<lparr>parameters := ps\<rparr>\<rparr>)"
  by (simp add: init_def init_limited_def inspect_has_signature_def zero_stats_def
        get_connection_ignores_parameters)

text \<open>
  At concrete factories: one of two parameters is refused by both constructors, one of
  one parameter is accepted, and \<^verbatim>\<open>get_connection\<close> on a pool that holds the factory
  of two parameters opens the connection as it does with the other.
\<close>

theorem init_checks_signature_at_construction_witness:
  "length (parameters two_parameter_connect) \<noteq> 1
   \<and> init two_parameter_connect heap0 = Inl ValueError
   \<and> init_limited two_parameter_connect 2 heap0 = Inl ValueError
   \<and> length (parameters example_connect) = 1
   \<and> init example_connect heap0 = Inr pool_new
   \<and> get_connection ''a'' 1000 0 1 2 (pool_new\<lparr>connect_fn := two_parameter_connect\<rparr>)
       = (Inr 97, pool_a\<lparr>connect_fn := two_parameter_connect\<rparr>)"
proof -
  have two: "length (parameters two_parameter_connect) \<noteq> 1"
    by (simp add: two_parameter_connect_def)
  have one: "length (parameters example_connect) = 1"
    by (simp add: example_connect_def)
  have same:
    "pool_new\<lparr>connect_fn := (connect_fn pool_new)\<lparr>parameters := [''dbname'', ''timeout'']\<rparr>\<rparr>
       = pool_new\<lparr>connect_fn := two_parameter_connect\<rparr>"
    by (simp add: two_parameter_connect_def example_defs)
  from init_checks_signature_at_construction
         [where f = two_parameter_connect and h = heap0 and n = 2 and dbname = "''a''"
            and ttl_ms = 1000 and ?now0.0 = 0 and ?now1.0 = 1 and ?now2.0 = 2
            and s = pool_new and ps = "[''dbname'', ''timeout'']"]
       init_checks_signature_at_construction
         [where f = example_connect and h = heap0 and n = 2 and dbname = "''a''"
            and ttl_ms = 1000 and ?now0.0 = 0 and ?now1.0 = 1 and ?now2.0 = 2
            and s = pool_new and ps = "[''dbname'', ''timeout'']"]
       two one same pool_a_reached
  show ?thesis by (simp add: pool_new_def)
qed

text \<open>
  C10. Let the pruning inside \<^verbatim>\<open>get_connection\<close> return, let the pool hold no entry
  for the name or one whose connection is closed, and let the factory raise \<open>e\<close>,
  leaving the connection objects as \<open>h\<close>. Then \<^verbatim>\<open>get_connection\<close> raises \<open>e\<close>, and
  the state it leaves has the opened counter one higher and no entry for the name: the
  entry that was there has been removed and is not put back.
\<close>

theorem get_connection_factory_failure:
  assumes pruned: "fst (prune_connections now0 s) = Inr ()"
    and unusable: "\<forall>c. map_of (conns s) dbname = Some c \<longrightarrow> closed (objs s (connection c))"
    and raises: "call (connect_fn s) dbname (objs s) = (Inl e, h)"
  shows "get_connection dbname ttl_ms now0 now1 now2 s =
           (Inl e,
            s\<lparr>objs := h,
              stats := (stats s)\<lparr>connection_opened := connection_opened (stats s) + 1\<rparr>,
              conns := filter (\<lambda>(k, c). k \<noteq> dbname) (conns s)\<rparr>)
    \<and> map_of (filter (\<lambda>(k, c). k \<noteq> dbname) (conns s)) dbname = None"
proof -
  have "prune_connections now0 s = (Inr (), s)"
    using pruned by (rule prune_connections_returns)
  moreover have "map_of (filter (\<lambda>(k, c). k \<noteq> dbname) (conns s)) dbname = None"
    by (induction "conns s") (auto simp: map_of_eq_None_iff)
  ultimately show ?thesis
    using unusable raises
    by (auto simp: get_connection_def dict_pop_def usable_or_new_def connect_new_def Let_def
        split: option.splits)
qed

text \<open>
  At a concrete pool: the entry of "a" holds a closed connection and the factory raises.
  The call raises the error of the factory; two connections count as opened and the map
  is empty.
\<close>

theorem get_connection_factory_failure_witness:
  "fst (prune_connections 10 (pool_a\<lparr>objs := heap_a_closed, connect_fn := failing_connect\<rparr>))
     = Inr ()
   \<and> map_of (conns (pool_a\<lparr>objs := heap_a_closed, connect_fn := failing_connect\<rparr>)) ''a''
       = Some entry_a
   \<and> closed (heap_a_closed (connection entry_a))
   \<and> call failing_connect ''a'' heap_a_closed = (Inl (ConnectError ''a''), heap_a_closed)
   \<and> get_connection ''a'' 1000 10 11 12
         (pool_a\<lparr>objs := heap_a_closed, connect_fn := failing_connect\<rparr>)
       = (Inl (ConnectError ''a''),
          pool_a\<lparr>objs := heap_a_closed, connect_fn := failing_connect,
                 stats := zero_stats\<lparr>connection_opened := 2\<rparr>, conns := []\<rparr>)"
proof -
  let ?s = "pool_a\<lparr>objs := heap_a_closed, connect_fn := failing_connect\<rparr>"
  have h1: "fst (prune_connections 10 ?s) = Inr ()"
    by (simp add: prune_connections_def example_defs)
  have stored: "map_of (conns ?s) ''a'' = Some entry_a"
    by (simp add: example_defs)
  have is_closed: "closed (heap_a_closed (connection entry_a))"
    by (simp add: heap_a_closed_def example_defs)
  have h2: "\<forall>c. map_of (conns ?s) ''a'' = Some c \<longrightarrow> closed (objs ?s (connection c))"
    using stored is_closed by simp
  have h3: "call (connect_fn ?s) ''a'' (objs ?s) = (Inl (ConnectError ''a''), heap_a_closed)"
    by (simp add: failing_connect_def)
  have raises: "call failing_connect ''a'' heap_a_closed
                  = (Inl (ConnectError ''a''), heap_a_closed)"
    by (simp add: failing_connect_def)
  have final:
    "?s\<lparr>objs := heap_a_closed,
        stats := (stats ?s)\<lparr>connection_opened := connection_opened (stats ?s) + 1\<rparr>,
        conns := filter (\<lambda>(k, c). k \<noteq> ''a'') (conns ?s)\<rparr>
     = pool_a\<lparr>objs := heap_a_closed, connect_fn := failing_connect,
              stats := zero_stats\<lparr>connection_opened := 2\<rparr>, conns := []\<rparr>"
    by (simp add: example_defs)
  from get_connection_factory_failure
         [where s = ?s and dbname = "''a''" and ?now0.0 = 10 and e = "ConnectError ''a''"
            and h = heap_a_closed and ttl_ms = 1000 and ?now1.0 = 11 and ?now2.0 = 12,
          OF h1 h2 h3]
       h1 stored is_closed raises final
  show ?thesis by simp
qed

end
